theory Spec2Isabelle
  imports Main "HOL-Library.Finite_Map" "HOL-Library.Signed_Division"
begin

section \<open>Data model of package common\<close>

text \<open>
  Instants (Go's time.Time) are integers: nanoseconds on the wall-clock time line, so that
  Before and Equal are \<open><\<close> and \<open>=\<close>. A time.Duration is an int64 count of nanoseconds.
\<close>

type_synonym Time = int
type_synonym Duration = int

text \<open>
  A Go error value. The sentinel ERR_LOCK_ALREADY_REQUIRED is compared by identity in
  the source, so it is a constructor of its own; every other error carries its message.
  A nil error is \<open>None\<close> of \<open>error option\<close>.
\<close>

datatype error = ERR_LOCK_ALREADY_REQUIRED | Error string

record Job =
  Name :: string
  Command :: string
  CronExpr :: string

text \<open>
  The event tags of common. The switch of handleJobEvent has no default branch: any other
  tag value is \<open>JOB_EVENT_OTHER\<close>.
\<close>

datatype EventType = JOB_EVENT_SAVE | JOB_EVENT_DELETE | JOB_EVENT_KILLER | JOB_EVENT_OTHER

record JobEvent =
  EventType :: EventType
  ev_Job :: Job

text \<open>
  A parsed trigger expression is represented by its method Next, from an instant to the
  next occurrence. The expression library is not part of the repository, so nothing is
  assumed about the function.
\<close>

type_synonym Expression = "Time \<Rightarrow> Time"

record JobsSchedulerPlan =
  plan_Job :: Job
  Expr :: Expression
  NextTime :: Time

text \<open>
  The cancellation control of a handle is the number of the context it cancels;
  invoking it is recorded in the world below.
\<close>

record JobExecuteInfo =
  info_Job :: Job
  PlanTime :: Time
  RealTime :: Time
  CancelFunc :: nat

record JobExecuteResult =
  ExecuteInfo :: JobExecuteInfo
  Output :: string
  Err :: "error option"
  StartTime :: Time
  EndTime :: Time

record JobLog =
  JobName :: string
  log_Command :: string
  log_Err :: string
  log_Output :: string
  log_PlanTime :: int
  SchedulerTime :: int
  log_StartTime :: int
  log_EndTime :: int

section \<open>The log sink's producer side\<close>

text \<open>
  The struct LogSink. A buffered channel is the list of the values it holds, oldest
  first; the durable collection is the list of the documents stored in it; a pointer to
  a LogBatch is the number of the allocation.
\<close>

record LogSink =
  logCollection :: "JobLog list"
  logChan :: "JobLog list"
  autoCommitChan :: "nat list"

text \<open>The capacity InitLogSink gives logChan.\<close>

definition logChan_cap :: nat where
  "logChan_cap = 1000"

text \<open>
  A channel send that is not inside a select with a default branch: it completes when
  the buffer has room (\<open>Some\<close> of the new buffer) and blocks otherwise (\<open>None\<close>).
\<close>

definition chan_send :: "nat \<Rightarrow> 'a \<Rightarrow> 'a list \<Rightarrow> 'a list option" where
  "chan_send cap v buf = (if length buf < cap then Some (buf @ [v]) else None)"

text \<open>Append: the send is tried; when it would block, the default branch does nothing.\<close>

definition Append :: "JobLog \<Rightarrow> LogSink \<Rightarrow> LogSink" where
  "Append jobLog logSink =
     (case chan_send logChan_cap jobLog (logChan logSink) of
        Some buf \<Rightarrow> logSink\<lparr>logChan := buf\<rparr>
      | None \<Rightarrow> logSink)"

section \<open>The scheduler\<close>

record Scheduler =
  jobPlanTable :: "(string, JobsSchedulerPlan) fmap"
  jobExecutingTable :: "(string, JobExecuteInfo) fmap"

text \<open>
  The scheduler together with what its methods reach: the calls made to
  G_executor.ExecuteJob and to cancellation controls (in order), the global log sink,
  and the clock. The clock is any function from the number of the reading to the
  instant read; contexts counts the cancellation contexts created so far.
\<close>

record World = Scheduler +
  executorCalls :: "JobExecuteInfo list"
  cancelCalls :: "nat list"
  G_logSink :: LogSink
  clock :: "nat \<Rightarrow> Time"
  clockReads :: nat
  contexts :: nat

text \<open>time.Now(): the next reading of the clock.\<close>

definition timeNow :: "World \<Rightarrow> Time \<times> World" where
  "timeNow w = (clock w (clockReads w), w\<lparr>clockReads := Suc (clockReads w)\<rparr>)"

text \<open>
  Modelled from the spec: common.BulidJobSchedulerPlan is not among the sources. The
  spec: build a SchedulePlan from the definition, computing the first next-fire time
  from the trigger expression evaluated against current time; parsing the trigger
  expression can fail. The parser is a parameter.
\<close>

definition BulidJobSchedulerPlan ::
    "(string \<Rightarrow> error + Expression) \<Rightarrow> Job \<Rightarrow> World \<Rightarrow> (error + JobsSchedulerPlan) \<times> World" where
  "BulidJobSchedulerPlan parse job w =
     (case parse (CronExpr job) of
        Inl err \<Rightarrow> (Inl err, w)
      | Inr expr \<Rightarrow>
          (let (now, w') = timeNow w
           in (Inr \<lparr>plan_Job = job, Expr = expr, NextTime = expr now\<rparr>, w')))"

text \<open>
  Modelled from the spec: common.BuildJobExecuteInfo is not among the sources. The
  spec: an ExecutionHandle is the job reference, the planned fire time, the actual
  dispatch time and a cancellation control.
\<close>

definition BuildJobExecuteInfo :: "JobsSchedulerPlan \<Rightarrow> World \<Rightarrow> JobExecuteInfo \<times> World" where
  "BuildJobExecuteInfo jobPlan w =
     (let (now, w') = timeNow w
      in (\<lparr>info_Job = plan_Job jobPlan, PlanTime = NextTime jobPlan, RealTime = now,
            CancelFunc = contexts w'\<rparr>,
          w'\<lparr>contexts := Suc (contexts w')\<rparr>))"

text \<open>handleJobEvent. The function returns nothing in the source: the result is the world.\<close>

definition handleJobEvent :: "(string \<Rightarrow> error + Expression) \<Rightarrow> JobEvent \<Rightarrow> World \<Rightarrow> World" where
  "handleJobEvent parse jobEvent w =
     (case EventType jobEvent of
        JOB_EVENT_SAVE \<Rightarrow>
          (case BulidJobSchedulerPlan parse (ev_Job jobEvent) w of
             (Inl err, w') \<Rightarrow> w'
           | (Inr jobSchedulerPlan, w') \<Rightarrow>
               w'\<lparr>jobPlanTable :=
                     fmupd (Name (ev_Job jobEvent)) jobSchedulerPlan (jobPlanTable w')\<rparr>)
      | JOB_EVENT_DELETE \<Rightarrow>
          (case fmlookup (jobPlanTable w) (Name (ev_Job jobEvent)) of
             Some jobSchedulerPlan \<Rightarrow>
               w\<lparr>jobPlanTable := fmdrop (Name (ev_Job jobEvent)) (jobPlanTable w)\<rparr>
           | None \<Rightarrow> w)
      | JOB_EVENT_KILLER \<Rightarrow>
          (case fmlookup (jobExecutingTable w) (Name (ev_Job jobEvent)) of
             Some jobExecuteInfo \<Rightarrow>
               w\<lparr>cancelCalls := cancelCalls w @ [CancelFunc jobExecuteInfo]\<rparr>
           | None \<Rightarrow> w)
      | JOB_EVENT_OTHER \<Rightarrow> w)"

text \<open>TryStartJob. The line printed to standard output is not modelled.\<close>

definition TryStartJob :: "JobsSchedulerPlan \<Rightarrow> World \<Rightarrow> World" where
  "TryStartJob jobPlan w =
     (case fmlookup (jobExecutingTable w) (Name (plan_Job jobPlan)) of
        Some jobExecuteInfo \<Rightarrow> w
      | None \<Rightarrow>
          (let (jobExecuteInfo, w') = BuildJobExecuteInfo jobPlan w
           in w'\<lparr>jobExecutingTable :=
                    fmupd (Name (plan_Job jobPlan)) jobExecuteInfo (jobExecutingTable w'),
                  executorCalls := executorCalls w' @ [jobExecuteInfo]\<rparr>))"




text \<open>
  Time.Sub: the difference of two instants as a Duration, which is an int64; a difference
  out of its range is replaced by the nearest bound.
\<close>

definition minDuration :: Duration where
  "minDuration = - (2 ^ 63)"

definition maxDuration :: Duration where
  "maxDuration = 2 ^ 63 - 1"

definition Second :: Duration where
  "Second = 1000000000"

definition time_Sub :: "Time \<Rightarrow> Time \<Rightarrow> Duration" where
  "time_Sub t u =
     (if t - u < minDuration then minDuration
      else if maxDuration < t - u then maxDuration
      else t - u)"

text \<open>A dereference of a nil pointer ends the function with a panic.\<close>

datatype panic = NilDereference

text \<open>
  The body of the range loop of TryScheduler, for the plan stored under key k. The table
  holds pointers to plans, so the assignment to jobPlan.NextTime changes the plan in the
  table. nearTime points at the NextTime field of a plan the loop has already visited;
  the loop writes to that field no more, so nearTime is modelled by the instant it
  points at.
\<close>

definition rangeBody :: "Time \<Rightarrow> string \<Rightarrow> JobsSchedulerPlan \<Rightarrow> Time option \<times> World \<Rightarrow> Time option \<times> World" where
  "rangeBody now k jobPlan st =
     (let (nearTime, w) = st;
          (jobPlan', w') =
            (if NextTime jobPlan \<le> now
             then (let w1 = TryStartJob jobPlan w;
                       advanced = jobPlan\<lparr>NextTime := Expr jobPlan now\<rparr>
                   in (advanced, w1\<lparr>jobPlanTable := fmupd k advanced (jobPlanTable w1)\<rparr>))
             else (jobPlan, w))
      in (case nearTime of
            None \<Rightarrow> (Some (NextTime jobPlan'), w')
          | Some t \<Rightarrow>
              (if NextTime jobPlan' < t then (Some (NextTime jobPlan'), w') else (Some t, w'))))"

text \<open>
  The range loop. Go leaves the order in which a map is ranged over unspecified: the
  keys come in the list \<open>order\<close>, any enumeration of the keys of the table.
\<close>

fun rangePlans :: "Time \<Rightarrow> string list \<Rightarrow> Time option \<times> World \<Rightarrow> Time option \<times> World" where
  "rangePlans now [] st = st"
| "rangePlans now (k # ks) st =
     (case fmlookup (jobPlanTable (snd st)) k of
        None \<Rightarrow> rangePlans now ks st
      | Some jobPlan \<Rightarrow> rangePlans now ks (rangeBody now k jobPlan st))"

definition TryScheduler :: "string list \<Rightarrow> World \<Rightarrow> (panic + Duration) \<times> World" where
  "TryScheduler order w =
     (if fmdom (jobPlanTable w) = {||} then (Inr (1 * Second), w)
      else
        (let (now, w1) = timeNow w;
             (nearTime, w2) = rangePlans now order (None, w1)
         in (case nearTime of
               None \<Rightarrow> (Inl NilDereference, w2)
             | Some t \<Rightarrow> (Inr (time_Sub t now), w2))))"

section \<open>The log sink's write loop\<close>

record LogBatch =
  Logs :: "JobLog list"

record Config =
  JobLogBatchSize :: int
  JobLogCommitTimeout :: int

text \<open>
  The state of writeLoop: the sink, the loop's variables and what the loop has done so
  far. A batch pointer is the number of the allocation, and the open batch is kept with
  its pointer (\<open>None\<close> is nil). commitTimer holds the pointer of the batch its
  callback sends. bulkWrites lists the calls of saveLogs, each with the pointer and the
  records of its batch; stoppedTimers lists the timers stopped.
\<close>

record WriteLoop = LogSink +
  logBatch :: "(nat \<times> LogBatch) option"
  commitTimer :: "nat option"
  allocated :: nat
  stoppedTimers :: "nat list"
  bulkWrites :: "(nat \<times> JobLog list) list"

text \<open>
  InsertMany of the storage driver is a parameter: from the documents and the collection
  to the collection afterwards and the error reported. saveLogs drops both results of
  the call.
\<close>

type_synonym InsertMany = "JobLog list \<Rightarrow> JobLog list \<Rightarrow> JobLog list \<times> error option"

definition saveLogs :: "InsertMany \<Rightarrow> nat \<times> LogBatch \<Rightarrow> WriteLoop \<Rightarrow> WriteLoop" where
  "saveLogs insertMany batch s =
     s\<lparr>logCollection := fst (insertMany (Logs (snd batch)) (logCollection s)),
       bulkWrites := bulkWrites s @ [(fst batch, Logs (snd batch))]\<rparr>"

text \<open>
  What the select of writeLoop received: a record, or the pointer of a timed-out batch.
  The callback of a timer sends the batch the timer was made for, which is not nil. An
  allocation is not reused while a pointer to it is held, so different batches have
  different numbers.
\<close>

datatype received = FromLogChan JobLog | FromAutoCommitChan nat

text \<open>
  One iteration of the loop of writeLoop, the received value already taken from its
  channel. \<open>None\<close> is the panic of commitTimer.Stop() on a nil timer.
\<close>

definition writeLoop_body :: "Config \<Rightarrow> InsertMany \<Rightarrow> received \<Rightarrow> WriteLoop \<Rightarrow> WriteLoop option" where
  "writeLoop_body G_config insertMany r s =
     (case r of
        FromLogChan log \<Rightarrow>
          (let (cur, s1) =
                 (case logBatch s of
                    None \<Rightarrow>
                      ((allocated s, \<lparr>Logs = []\<rparr>),
                       s\<lparr>allocated := Suc (allocated s), commitTimer := Some (allocated s)\<rparr>)
                  | Some b \<Rightarrow> (b, s));
               cur' = (fst cur, (snd cur)\<lparr>Logs := Logs (snd cur) @ [log]\<rparr>);
               s2 = s1\<lparr>logBatch := Some cur'\<rparr>
           in if JobLogBatchSize G_config \<le> int (length (Logs (snd cur')))
              then (let s3 = (saveLogs insertMany cur' s2)\<lparr>logBatch := None\<rparr>
                    in case commitTimer s3 of
                         None \<Rightarrow> None
                       | Some t \<Rightarrow> Some (s3\<lparr>stoppedTimers := stoppedTimers s3 @ [t]\<rparr>))
              else Some s2)
      | FromAutoCommitChan timeoutBatch \<Rightarrow>
          (case logBatch s of
             None \<Rightarrow> Some s
           | Some b \<Rightarrow>
               (if timeoutBatch \<noteq> fst b then Some s
                else Some ((saveLogs insertMany b s)\<lparr>logBatch := None\<rparr>))))"


text \<open>The state in which the goroutine of writeLoop starts.\<close>

definition writeLoop_init :: "JobLog list \<Rightarrow> WriteLoop" where
  "writeLoop_init coll =
     \<lparr>logCollection = coll, logChan = [], autoCommitChan = [],
      logBatch = None, commitTimer = None, allocated = 0, stoppedTimers = [],
      bulkWrites = []\<rparr>"

section \<open>The worker registry of the master\<close>

text \<open>A Go slice is nil or holds a list of elements; append to nil gives a slice.\<close>

datatype 'a slice = NilSlice | Slice "'a list"

fun append_slice :: "'a slice \<Rightarrow> 'a \<Rightarrow> 'a slice" where
  "append_slice NilSlice x = Slice [x]"
| "append_slice (Slice xs) x = Slice (xs @ [x])"

record KeyValue =
  Key :: string
  Value :: string

text \<open>
  ListWorkers. The read of the coordination store (kv.Get with the prefix option),
  the directory constant common.JOB_WORKER_DIR and common.ExtractWorkerIP are not among
  the sources: they are parameters.
\<close>

definition ListWorkers ::
    "(string \<Rightarrow> error + KeyValue list) \<Rightarrow> string \<Rightarrow> (string \<Rightarrow> string) \<Rightarrow> string slice \<times> error option" where
  "ListWorkers kvGet JOB_WORKER_DIR ExtractWorkerIP =
     (let workerArr = Slice []
      in case kvGet JOB_WORKER_DIR of
           Inl err \<Rightarrow> (workerArr, Some err)
         | Inr kvs \<Rightarrow>
             (foldl (\<lambda>arr kv. append_slice arr (ExtractWorkerIP (Key kv))) workerArr kvs, None))"

section \<open>Notions used in the statements\<close>

text \<open>What one pass of TryScheduler at instant now does to a plan: a due plan moves on.\<close>

definition advance :: "Time \<Rightarrow> JobsSchedulerPlan \<Rightarrow> JobsSchedulerPlan" where
  "advance now p = (if NextTime p \<le> now then p\<lparr>NextTime := Expr p now\<rparr> else p)"

text \<open>The value of nearTime after the plan under key k of table T has been visited.\<close>

definition nearStep ::
    "Time \<Rightarrow> (string, JobsSchedulerPlan) fmap \<Rightarrow> string \<Rightarrow> Time option \<Rightarrow> Time option" where
  "nearStep now T k acc =
     (case fmlookup T k of
        None \<Rightarrow> acc
      | Some p \<Rightarrow>
          Some (case acc of
                  None \<Rightarrow> NextTime (advance now p)
                | Some t \<Rightarrow> min t (NextTime (advance now p))))"


section \<open>Concrete inputs\<close>

definition exJob :: Job where
  "exJob = \<lparr>Name = ''backup'', Command = ''echo hello'', CronExpr = ''*/5 * * * * * *''\<rparr>"

text \<open>An expression that fires at every multiple of 5.\<close>

definition everyFive :: Expression where
  "everyFive t = t - t mod 5 + 5"

text \<open>
  An expression with a single occurrence, at instant 100. The expression library
  answers with the zero time.Time (1 January of year 1, in nanoseconds before the Unix
  epoch) when there is no later occurrence.
\<close>

definition zeroTime :: Time where
  "zeroTime = - 62135596800000000000"

definition onceAt100 :: Expression where
  "onceAt100 t = (if t < 100 then 100 else zeroTime)"

definition exParse :: "string \<Rightarrow> error + Expression" where
  "exParse s =
     (if s = ''*/5 * * * * * *'' then Inr everyFive
      else Inl (Error ''syntax error in cron expression''))"

definition exPlan :: JobsSchedulerPlan where
  "exPlan = \<lparr>plan_Job = exJob, Expr = everyFive, NextTime = 100\<rparr>"

definition exHandle :: JobExecuteInfo where
  "exHandle = \<lparr>info_Job = exJob, PlanTime = 95, RealTime = 96, CancelFunc = 0\<rparr>"

definition exSink :: LogSink where
  "exSink = \<lparr>logCollection = [], logChan = [], autoCommitChan = []\<rparr>"

text \<open>A world with one plan, due at the first reading of the clock, and nothing running.\<close>

definition exWorld :: World where
  "exWorld =
     \<lparr>jobPlanTable = fmupd ''backup'' exPlan fmempty,
      jobExecutingTable = fmempty,
      executorCalls = [], cancelCalls = [], G_logSink = exSink,
      clock = (\<lambda>n. 100 + int n), clockReads = 0, contexts = 0\<rparr>"

text \<open>The same world while the job runs.\<close>

definition exWorldRunning :: World where
  "exWorldRunning =
     exWorld\<lparr>jobExecutingTable := fmupd ''backup'' exHandle fmempty,
             executorCalls := [exHandle], contexts := 1\<rparr>"

text \<open>A world whose only plan has passed its last occurrence when the clock is read.\<close>

definition expiredWorld :: World where
  "expiredWorld =
     exWorld\<lparr>jobPlanTable :=
               fmupd ''once'' \<lparr>plan_Job = exJob\<lparr>Name := ''once''\<rparr>, Expr = onceAt100,
                                NextTime = 100\<rparr> fmempty\<rparr>"

definition exLog :: "string \<Rightarrow> JobLog" where
  "exLog out =
     \<lparr>JobName = ''backup'', log_Command = ''echo hello'', log_Err = [], log_Output = out,
      log_PlanTime = 0, SchedulerTime = 0, log_StartTime = 0, log_EndTime = 0\<rparr>"

definition exResult :: "error option \<Rightarrow> JobExecuteResult" where
  "exResult e =
     \<lparr>ExecuteInfo = exHandle, Output = ''hello'', Err = e, StartTime = 97, EndTime = 99\<rparr>"

definition exConfig :: Config where
  "exConfig = \<lparr>JobLogBatchSize = 2, JobLogCommitTimeout = 1000\<rparr>"


text \<open>A driver whose write fails: nothing is stored and an error is reported.\<close>

definition failingInsert :: InsertMany where
  "failingInsert docs coll = (coll, Some (Error ''connection refused''))"

text \<open>A driver that stores nothing either, and reports no error.\<close>

definition silentInsert :: InsertMany where
  "silentInsert docs coll = (coll, None)"

text \<open>A write loop with a batch of one record open.\<close>

definition openLoop :: WriteLoop where
  "openLoop =
     (writeLoop_init [])\<lparr>logBatch := Some (0, \<lparr>Logs = [exLog ''a'']\<rparr>),
                          commitTimer := Some 0, allocated := 1\<rparr>"

definition exKvGet :: "string \<Rightarrow> error + KeyValue list" where
  "exKvGet dir =
     (if dir = ''/cron/workers/''
      then Inr [\<lparr>Key = ''/cron/workers/192.168.1.1'', Value = []\<rparr>]
      else if dir = ''/cron/empty/'' then Inr []
      else Inl (Error ''context deadline exceeded''))"

section \<open>Auxiliary facts\<close>

lemma TryStartJob_jobPlanTable [simp]: "jobPlanTable (TryStartJob p w) = jobPlanTable w"
  by (simp add: TryStartJob_def BuildJobExecuteInfo_def timeNow_def split: option.splits)

lemma rangeBody_table:
  "jobPlanTable (snd (rangeBody now k p (near, w))) =
     (if NextTime p \<le> now then fmupd k (advance now p) (jobPlanTable w) else jobPlanTable w)"
  by (simp add: rangeBody_def advance_def Let_def split: option.splits)

lemma rangeBody_near:
  "fst (rangeBody now k p (near, w)) =
     Some (case near of
             None \<Rightarrow> NextTime (advance now p)
           | Some t \<Rightarrow> min t (NextTime (advance now p)))"
  by (simp add: rangeBody_def advance_def Let_def min_def split: option.splits)

lemma rangeBody_lookup:
  "fmlookup (jobPlanTable w) k = Some p \<Longrightarrow>
   fmlookup (jobPlanTable (snd (rangeBody now k p (near, w)))) k' =
     (if k' = k then Some (advance now p) else fmlookup (jobPlanTable w) k')"
  by (simp add: rangeBody_table advance_def)

text \<open>The table after the range loop: the plans under the keys visited have moved on.\<close>

lemma rangePlans_lookup:
  "distinct ks \<Longrightarrow>
   fmlookup (jobPlanTable (snd (rangePlans now ks (near, w)))) k =
     (if k \<in> set ks then map_option (advance now) (fmlookup (jobPlanTable w) k)
      else fmlookup (jobPlanTable w) k)"
proof (induction ks arbitrary: near w)
  case Nil
  then show ?case by simp
next
  case (Cons a ks)
  show ?case
  proof (cases "fmlookup (jobPlanTable w) a")
    case None
    with Cons show ?thesis by auto
  next
    case (Some p)
    obtain near' w' where rb: "rangeBody now a p (near, w) = (near', w')"
      by (cases "rangeBody now a p (near, w)")
    have lk: "\<And>k'. fmlookup (jobPlanTable w') k' =
       (if k' = a then Some (advance now p) else fmlookup (jobPlanTable w) k')"
      using rangeBody_lookup [OF Some, of now near] rb by simp
    from Cons.prems have d: "distinct ks" and na: "a \<notin> set ks" by auto
    show ?thesis
      using Cons.IH [OF d, of near' w'] Some rb na
      by (auto simp: lk)
  qed
qed

text \<open>nearTime after the range loop, in terms of the table the loop started from.\<close>

lemma rangePlans_near:
  "distinct ks \<Longrightarrow>
   fst (rangePlans now ks (near, w)) = fold (nearStep now (jobPlanTable w)) ks near"
proof (induction ks arbitrary: near w)
  case Nil
  then show ?case by simp
next
  case (Cons a ks)
  from Cons.prems have d: "distinct ks" and na: "a \<notin> set ks" by auto
  show ?case
  proof (cases "fmlookup (jobPlanTable w) a")
    case None
    with Cons.IH [OF d, of near w] show ?thesis by (simp add: nearStep_def)
  next
    case (Some p)
    obtain near' w' where rb: "rangeBody now a p (near, w) = (near', w')"
      by (cases "rangeBody now a p (near, w)")
    have lk: "\<And>k'. fmlookup (jobPlanTable w') k' =
       (if k' = a then Some (advance now p) else fmlookup (jobPlanTable w) k')"
      using rangeBody_lookup [OF Some, of now near] rb by simp
    have near': "near' = nearStep now (jobPlanTable w) a near"
      using rangeBody_near [of now a p near w] rb Some by (simp add: nearStep_def)
    have "fold (nearStep now (jobPlanTable w')) ks near' =
          fold (nearStep now (jobPlanTable w)) ks near'"
      using na by (intro fold_cong) (auto simp: nearStep_def lk fun_eq_iff)
    then show ?thesis
      using Cons.IH [OF d, of near' w'] Some rb near' by simp
  qed
qed

lemma fold_nearStep_Some:
  "\<forall>k\<in>set ks. k \<in> fmdom' T \<Longrightarrow>
   fold (nearStep now T) ks (Some t) =
     Some (Min (insert t ((\<lambda>k. NextTime (advance now (the (fmlookup T k)))) ` set ks)))"
proof (induction ks arbitrary: t)
  case Nil
  then show ?case by simp
next
  case (Cons a ks)
  then obtain p where p: "fmlookup T a = Some p" by (auto simp: fmlookup_dom'_iff)
  let ?f = "\<lambda>k. NextTime (advance now (the (fmlookup T k)))"
  have "fold (nearStep now T) (a # ks) (Some t) = fold (nearStep now T) ks (Some (min t (?f a)))"
    using p by (simp add: nearStep_def)
  also have "\<dots> = Some (Min (insert (min t (?f a)) (?f ` set ks)))"
    using Cons by simp
  also have "Min (insert (min t (?f a)) (?f ` set ks)) = Min (insert t (?f ` set (a # ks)))"
  proof -
    have "Min (insert t (insert (?f a) (?f ` set ks))) =
          min t (Min (insert (?f a) (?f ` set ks)))"
      by (rule Min_insert) auto
    moreover have "Min (insert (min t (?f a)) (?f ` set ks)) =
          min t (Min (insert (?f a) (?f ` set ks)))"
    proof (cases "set ks = {}")
      case True
      then show ?thesis by simp
    next
      case False
      then show ?thesis by (simp add: min.assoc)
    qed
    ultimately show ?thesis by simp
  qed
  finally show ?case .
qed

lemma fold_nearStep_None:
  "ks \<noteq> [] \<Longrightarrow> \<forall>k\<in>set ks. k \<in> fmdom' T \<Longrightarrow>
   fold (nearStep now T) ks None =
     Some (Min ((\<lambda>k. NextTime (advance now (the (fmlookup T k)))) ` set ks))"
proof (cases ks)
  case Nil
  assume "ks \<noteq> []"
  with Nil show ?thesis by simp
next
  case (Cons a ks')
  assume dom: "\<forall>k\<in>set ks. k \<in> fmdom' T"
  then obtain p where p: "fmlookup T a = Some p"
    using Cons by (auto simp: fmlookup_dom'_iff)
  have "fold (nearStep now T) ks None =
        fold (nearStep now T) ks' (Some (NextTime (advance now p)))"
    using Cons p by (simp add: nearStep_def)
  also have "\<dots> = Some (Min (insert (NextTime (advance now p))
        ((\<lambda>k. NextTime (advance now (the (fmlookup T k)))) ` set ks')))"
    using dom Cons by (intro fold_nearStep_Some) auto
  finally show ?thesis using Cons p by simp
qed

lemma image_keys_ran:
  "set ks = fmdom' T \<Longrightarrow> (\<lambda>k. f (the (fmlookup T k))) ` set ks = f ` fmran' T"
  by (force simp: fmlookup_dom'_iff fmlookup_ran'_iff image_iff)

lemma time_Sub_nonneg: "0 \<le> time_Sub t u \<longleftrightarrow> u \<le> t"
  by (simp add: time_Sub_def minDuration_def maxDuration_def)

text \<open>The whole of TryScheduler on a table that is not empty.\<close>

lemma TryScheduler_nonempty:
  assumes ne: "fmdom (jobPlanTable w) \<noteq> {||}"
    and d: "distinct order"
    and keys: "set order = fmdom' (jobPlanTable w)"
  shows "jobPlanTable (snd (TryScheduler order w)) =
           fmmap (advance (clock w (clockReads w))) (jobPlanTable w)"
    and "fst (TryScheduler order w) =
           Inr (time_Sub
                 (Min ((\<lambda>p. NextTime (advance (clock w (clockReads w)) p)) ` fmran' (jobPlanTable w)))
                 (clock w (clockReads w)))"
proof -
  let ?now = "clock w (clockReads w)"
  let ?w1 = "w\<lparr>clockReads := Suc (clockReads w)\<rparr>"
  obtain near w2 where rp: "rangePlans ?now order (None, ?w1) = (near, w2)"
    by (cases "rangePlans ?now order (None, ?w1)")
  from ne keys have order_ne: "order \<noteq> []"
    by (auto simp: fmdom'_alt_def)
  have near: "near = Some (Min ((\<lambda>p. NextTime (advance ?now p)) ` fmran' (jobPlanTable w)))"
  proof -
    have "near = fold (nearStep ?now (jobPlanTable w)) order None"
      using rangePlans_near [OF d, of ?now None ?w1] rp by simp
    also have "\<dots> = Some (Min ((\<lambda>k. NextTime (advance ?now (the (fmlookup (jobPlanTable w) k))))
                              ` set order))"
      using order_ne keys by (intro fold_nearStep_None) auto
    also have "(\<lambda>k. NextTime (advance ?now (the (fmlookup (jobPlanTable w) k)))) ` set order =
               (\<lambda>p. NextTime (advance ?now p)) ` fmran' (jobPlanTable w)"
      by (rule image_keys_ran [OF keys])
    finally show ?thesis .
  qed
  have res: "TryScheduler order w = (Inr (time_Sub (the near) ?now), w2)"
    using ne rp near by (simp add: TryScheduler_def timeNow_def)
  have "\<And>k. fmlookup (jobPlanTable w2) k = map_option (advance ?now) (fmlookup (jobPlanTable w) k)"
  proof -
    fix k
    have "fmlookup (jobPlanTable w2) k =
       (if k \<in> set order then map_option (advance ?now) (fmlookup (jobPlanTable w) k)
        else fmlookup (jobPlanTable w) k)"
      using rangePlans_lookup [OF d, of ?now None ?w1 k] rp by simp
    moreover have "k \<notin> set order \<Longrightarrow> fmlookup (jobPlanTable w) k = None"
      using keys by (auto simp: fmlookup_dom'_iff)
    ultimately show "fmlookup (jobPlanTable w2) k =
        map_option (advance ?now) (fmlookup (jobPlanTable w) k)"
      by auto
  qed
  then have "jobPlanTable w2 = fmmap (advance ?now) (jobPlanTable w)"
    by (intro fmap_ext) simp
  with res show "jobPlanTable (snd (TryScheduler order w)) = fmmap (advance ?now) (jobPlanTable w)"
    by simp
  from res near show "fst (TryScheduler order w) =
      Inr (time_Sub (Min ((\<lambda>p. NextTime (advance ?now p)) ` fmran' (jobPlanTable w))) ?now)"
    by simp
qed








lemma writeLoop_body_error_dropped:
  "\<forall>docs coll. fst (ins1 docs coll) = fst (ins2 docs coll) \<Longrightarrow>
   writeLoop_body cfg ins1 r s = writeLoop_body cfg ins2 r s"
  by (simp add: writeLoop_body_def saveLogs_def Let_def
           split: received.splits option.splits prod.splits)

lemma foldl_append_slice:
  "foldl (\<lambda>arr kv. append_slice arr (f kv)) (Slice xs) kvs = Slice (xs @ map f kvs)"
  by (induction kvs arbitrary: xs) auto

section \<open>The claims\<close>

text \<open>
  C1. For every job name the Execution Tracker holds at most one ExecutionHandle, and
  TryStartJob for a plan whose job name has a handle in the tracker is a no-op: the
  tracker and the list of calls to the Executor are as before, as is all of the world.
\<close>

theorem TryStartJob_running_is_noop:
  "(\<exists>\<^sub>\<le>\<^sub>1 h. fmlookup (jobExecutingTable w) n = Some h) \<and>
   (fmlookup (jobExecutingTable w) (Name (plan_Job jobPlan)) = Some h' \<longrightarrow>
      jobExecutingTable (TryStartJob jobPlan w) = jobExecutingTable w \<and>
      executorCalls (TryStartJob jobPlan w) = executorCalls w \<and>
      TryStartJob jobPlan w = w)"
  by (auto simp: TryStartJob_def Uniq_def)

theorem TryStartJob_running_is_noop_witness:
  "fmlookup (jobExecutingTable exWorldRunning) (Name (plan_Job exPlan)) = Some exHandle \<and>
   executorCalls (TryStartJob exPlan exWorldRunning) = [exHandle] \<and>
   TryStartJob exPlan exWorldRunning = exWorldRunning"
proof -
  have h: "fmlookup (jobExecutingTable exWorldRunning) (Name (plan_Job exPlan)) = Some exHandle"
    by (simp add: exWorldRunning_def exWorld_def exPlan_def exJob_def)
  have "executorCalls exWorldRunning = [exHandle]"
    by (simp add: exWorldRunning_def)
  with h TryStartJob_running_is_noop [of exWorldRunning "''backup''" exPlan exHandle]
  show ?thesis by simp
qed



text \<open>
  C3, as the code has it. For a plan table that is not empty and any order in which the
  range visits its keys, TryScheduler leaves every due plan at the next occurrence of
  its expression after now and every other plan as it was, and returns the least
  next-fire time of the table it leaves minus now, as Time.Sub computes it; nothing
  clamps the result. The result is not negative exactly when the expression of every due
  plan answers with an instant that is not before now.
\<close>

theorem TryScheduler_returns_min_minus_now:
  assumes "fmdom (jobPlanTable w) \<noteq> {||}"
    and "distinct order"
    and "set order = fmdom' (jobPlanTable w)"
  shows "jobPlanTable (snd (TryScheduler order w)) =
           fmmap (advance (clock w (clockReads w))) (jobPlanTable w) \<and>
         fst (TryScheduler order w) =
           Inr (time_Sub (Min (NextTime ` fmran' (jobPlanTable (snd (TryScheduler order w)))))
                  (clock w (clockReads w))) \<and>
         ((case fst (TryScheduler order w) of Inl e \<Rightarrow> False | Inr delay \<Rightarrow> 0 \<le> delay) \<longleftrightarrow>
          (\<forall>k p. fmlookup (jobPlanTable w) k = Some p \<and> NextTime p \<le> clock w (clockReads w) \<longrightarrow>
                   clock w (clockReads w) \<le> Expr p (clock w (clockReads w))))"
proof (intro conjI)
  let ?now = "clock w (clockReads w)"
  let ?T = "jobPlanTable w"
  let ?S = "(\<lambda>p. NextTime (advance ?now p)) ` fmran' ?T"
  show tbl: "jobPlanTable (snd (TryScheduler order w)) = fmmap (advance ?now) ?T"
    using assms by (rule TryScheduler_nonempty)
  have res: "fst (TryScheduler order w) = Inr (time_Sub (Min ?S) ?now)"
    using assms by (rule TryScheduler_nonempty)
  have img: "NextTime ` fmran' (fmmap (advance ?now) ?T) = ?S"
    by (simp add: image_image)
  from res show "fst (TryScheduler order w) =
      Inr (time_Sub (Min (NextTime ` fmran' (jobPlanTable (snd (TryScheduler order w))))) ?now)"
    by (simp only: tbl img)
  have fin: "finite ?S"
    by (simp add: fmran'_alt_def)
  from assms(1) obtain k where "k |\<in>| fmdom ?T" by auto
  then have ne: "?S \<noteq> {}"
    by (auto simp: fmlookup_dom_iff dest: fmran'I)
  have "(\<forall>t\<in>?S. ?now \<le> t) \<longleftrightarrow>
        (\<forall>k p. fmlookup ?T k = Some p \<and> NextTime p \<le> ?now \<longrightarrow> ?now \<le> Expr p ?now)"
    by (auto simp: advance_def fmlookup_ran'_iff split: if_splits)
  with fin ne have "?now \<le> Min ?S \<longleftrightarrow>
        (\<forall>k p. fmlookup ?T k = Some p \<and> NextTime p \<le> ?now \<longrightarrow> ?now \<le> Expr p ?now)"
    by simp
  with res show "(case fst (TryScheduler order w) of Inl e \<Rightarrow> False | Inr delay \<Rightarrow> 0 \<le> delay) \<longleftrightarrow>
        (\<forall>k p. fmlookup ?T k = Some p \<and> NextTime p \<le> ?now \<longrightarrow> ?now \<le> Expr p ?now)"
    by (simp add: time_Sub_nonneg)
qed

theorem TryScheduler_returns_min_minus_now_witness:
  "fmdom (jobPlanTable exWorld) \<noteq> {||} \<and> distinct [''backup''] \<and>
   set [''backup''] = fmdom' (jobPlanTable exWorld) \<and>
   fst (TryScheduler [''backup''] exWorld) = Inr 5 \<and>
   map_option NextTime (fmlookup (jobPlanTable (snd (TryScheduler [''backup''] exWorld))) ''backup'') =
     Some 105"
proof -
  have h1: "fmdom (jobPlanTable exWorld) \<noteq> {||}"
    by (simp add: exWorld_def)
  have h2: "distinct [''backup'']"
    by simp
  have h3: "set [''backup''] = fmdom' (jobPlanTable exWorld)"
    by (simp add: exWorld_def)
  have ran: "fmran' (jobPlanTable exWorld) = {exPlan}"
    by (auto simp: exWorld_def fmlookup_ran'_iff split: if_splits)
  have adv: "advance 100 exPlan = exPlan\<lparr>NextTime := 105\<rparr>"
    by (simp add: advance_def exPlan_def everyFive_def)
  have now: "clock exWorld (clockReads exWorld) = 100"
    by (simp add: exWorld_def)
  from TryScheduler_returns_min_minus_now [OF h1 h2 h3]
  have tbl: "jobPlanTable (snd (TryScheduler [''backup''] exWorld)) =
               fmmap (advance 100) (jobPlanTable exWorld)"
    and res: "fst (TryScheduler [''backup''] exWorld) =
               Inr (time_Sub (Min (NextTime ` fmran' (jobPlanTable (snd (TryScheduler [''backup''] exWorld)))))
                      100)"
    by (simp_all only: now)
  have "fst (TryScheduler [''backup''] exWorld) = Inr 5"
    using res by (simp add: tbl ran adv time_Sub_def minDuration_def maxDuration_def)
  moreover have "map_option NextTime
     (fmlookup (jobPlanTable (snd (TryScheduler [''backup''] exWorld))) ''backup'') = Some 105"
    by (simp add: tbl adv) (simp add: exWorld_def adv)
  ultimately show ?thesis using h1 h2 h3 by simp
qed

text \<open>
  C3 as stated fails: the plan of expiredWorld is due, its expression has no later
  occurrence and answers with the zero time, and TryScheduler returns the least
  Duration, which is negative.
\<close>

theorem TryScheduler_negative_delay_counterexample:
  "fmdom (jobPlanTable expiredWorld) \<noteq> {||} \<and>
   fst (TryScheduler [''once''] expiredWorld) = Inr (- 9223372036854775808) \<and>
   \<not> (case fst (TryScheduler [''once''] expiredWorld) of
        Inl e \<Rightarrow> False | Inr delay \<Rightarrow> 0 \<le> delay)"
  by (simp add: TryScheduler_def expiredWorld_def exWorld_def timeNow_def rangeBody_def
        TryStartJob_def BuildJobExecuteInfo_def Let_def onceAt100_def zeroTime_def
        time_Sub_def minDuration_def maxDuration_def exJob_def)


text \<open>
  C5, as the code has it. A flush calls the bulk write once, whatever the write answers,
  and closes the batch; the error the write reports is dropped, so that the loop goes on
  in the same state as with a write that does the same to the collection and reports
  no error. Nothing is retried and nothing is resubmitted.
\<close>

theorem flush_drops_write_error:
  "bulkWrites (saveLogs ins batch s) = bulkWrites s @ [(fst batch, Logs (snd batch))] \<and>
   (logBatch s = Some b \<longrightarrow>
      (\<exists>s'. writeLoop_body cfg ins (FromAutoCommitChan (fst b)) s = Some s' \<and>
            logBatch s' = None \<and>
            bulkWrites s' = bulkWrites s @ [(fst b, Logs (snd b))] \<and>
            writeLoop_body cfg ins (FromAutoCommitChan (fst b)) s' = Some s')) \<and>
   ((\<forall>docs coll. fst (ins docs coll) = fst (ins' docs coll)) \<longrightarrow>
      writeLoop_body cfg ins r s = writeLoop_body cfg ins' r s)"
proof (intro conjI impI)
  show "bulkWrites (saveLogs ins batch s) = bulkWrites s @ [(fst batch, Logs (snd batch))]"
    by (simp add: saveLogs_def)
next
  assume "logBatch s = Some b"
  then show "\<exists>s'. writeLoop_body cfg ins (FromAutoCommitChan (fst b)) s = Some s' \<and>
            logBatch s' = None \<and>
            bulkWrites s' = bulkWrites s @ [(fst b, Logs (snd b))] \<and>
            writeLoop_body cfg ins (FromAutoCommitChan (fst b)) s' = Some s'"
    by (simp add: writeLoop_body_def saveLogs_def)
next
  assume "\<forall>docs coll. fst (ins docs coll) = fst (ins' docs coll)"
  then show "writeLoop_body cfg ins r s = writeLoop_body cfg ins' r s"
    by (rule writeLoop_body_error_dropped)
qed

theorem flush_drops_write_error_witness:
  "logBatch openLoop = Some (0, \<lparr>Logs = [exLog ''a'']\<rparr>) \<and>
   snd (failingInsert [exLog ''a''] []) = Some (Error ''connection refused'') \<and>
   (\<exists>s'. writeLoop_body exConfig failingInsert (FromAutoCommitChan 0) openLoop = Some s' \<and>
         logBatch s' = None \<and>
         bulkWrites s' = [(0, [exLog ''a''])] \<and>
         writeLoop_body exConfig failingInsert (FromAutoCommitChan 0) s' = Some s')"
proof -
  have h: "logBatch openLoop = Some (0, \<lparr>Logs = [exLog ''a'']\<rparr>)"
    by (simp add: openLoop_def)
  have i: "bulkWrites openLoop = []"
    by (simp add: openLoop_def writeLoop_init_def)
  from flush_drops_write_error
    [of failingInsert "(0, \<lparr>Logs = []\<rparr>)" openLoop "(0, \<lparr>Logs = [exLog ''a'']\<rparr>)" exConfig
        failingInsert "FromAutoCommitChan 0"] h
  have "\<exists>s'. writeLoop_body exConfig failingInsert (FromAutoCommitChan 0) openLoop = Some s' \<and>
         logBatch s' = None \<and>
         bulkWrites s' = bulkWrites openLoop @ [(0, [exLog ''a''])] \<and>
         writeLoop_body exConfig failingInsert (FromAutoCommitChan 0) s' = Some s'"
    by simp
  then show ?thesis
    using h by (simp add: i failingInsert_def)
qed

text \<open>
  C5 as stated fails: the write of failingInsert reports an error, and the loop is
  afterwards in the very state in which silentInsert, which reports none, leaves it. No
  part of the state tells the failure.
\<close>

theorem write_failure_not_surfaced_counterexample:
  "snd (failingInsert [exLog ''a''] (logCollection openLoop)) = Some (Error ''connection refused'') \<and>
   snd (silentInsert [exLog ''a''] (logCollection openLoop)) = None \<and>
   writeLoop_body exConfig failingInsert (FromAutoCommitChan 0) openLoop =
     writeLoop_body exConfig silentInsert (FromAutoCommitChan 0) openLoop \<and>
   writeLoop_body exConfig failingInsert (FromAutoCommitChan 0) openLoop =
     Some ((writeLoop_init [])\<lparr>commitTimer := Some 0, allocated := 1,
                               bulkWrites := [(0, [exLog ''a''])]\<rparr>)"
  by (simp add: writeLoop_body_def saveLogs_def openLoop_def writeLoop_init_def
        failingInsert_def silentInsert_def)

text \<open>
  C6. A SAVE event whose trigger expression does not parse leaves the whole world as it
  was: no plan is created, the plan table is unchanged, and handleJobEvent has no error
  to return.
\<close>

theorem handleJobEvent_save_parse_failure:
  assumes "EventType jobEvent = JOB_EVENT_SAVE"
    and "parse (CronExpr (ev_Job jobEvent)) = Inl err"
  shows "handleJobEvent parse jobEvent w = w \<and>
         jobPlanTable (handleJobEvent parse jobEvent w) = jobPlanTable w"
  using assms by (simp add: handleJobEvent_def BulidJobSchedulerPlan_def)

theorem handleJobEvent_save_parse_failure_witness:
  "exParse (CronExpr (exJob\<lparr>CronExpr := ''every day''\<rparr>)) =
     Inl (Error ''syntax error in cron expression'') \<and>
   handleJobEvent exParse \<lparr>EventType = JOB_EVENT_SAVE, ev_Job = exJob\<lparr>CronExpr := ''every day''\<rparr>\<rparr>
     exWorld = exWorld"
proof -
  have h: "exParse (CronExpr (ev_Job \<lparr>EventType = JOB_EVENT_SAVE,
                                      ev_Job = exJob\<lparr>CronExpr := ''every day''\<rparr>\<rparr>)) =
           Inl (Error ''syntax error in cron expression'')"
    by (simp add: exParse_def)
  have t: "EventType \<lparr>EventType = JOB_EVENT_SAVE,
                         ev_Job = exJob\<lparr>CronExpr := ''every day''\<rparr>\<rparr> = JOB_EVENT_SAVE"
    by simp
  from handleJobEvent_save_parse_failure
         [of "\<lparr>EventType = JOB_EVENT_SAVE, ev_Job = exJob\<lparr>CronExpr := ''every day''\<rparr>\<rparr>"
             exParse "Error ''syntax error in cron expression''" exWorld, OF t h] h
  show ?thesis by simp
qed

text \<open>
  C7. Append never blocks: it is the send on the record channel when the channel has
  room, and where that send would block, which is when the channel holds as many
  records as its capacity, Append returns with the sink unchanged and the record
  dropped.
\<close>

theorem Append_drops_when_full:
  "Append jobLog logSink =
     (if length (logChan logSink) < logChan_cap
      then logSink\<lparr>logChan := logChan logSink @ [jobLog]\<rparr>
      else logSink) \<and>
   (chan_send logChan_cap jobLog (logChan logSink) = None \<longleftrightarrow>
      logChan_cap \<le> length (logChan logSink)) \<and>
   Append jobLog logSink =
     (case chan_send logChan_cap jobLog (logChan logSink) of
        None \<Rightarrow> logSink
      | Some buf \<Rightarrow> logSink\<lparr>logChan := buf\<rparr>)"
  by (auto simp: Append_def chan_send_def)

text \<open>
  C8. A DELETE event for a job name that is not in the plan table, and a FORCE-KILL
  event for a job name that is not in the executing table, leave the whole world as it
  was.
\<close>

theorem handleJobEvent_unknown_name_is_noop:
  assumes "EventType jobEvent = JOB_EVENT_DELETE \<and>
             fmlookup (jobPlanTable w) (Name (ev_Job jobEvent)) = None \<or>
           EventType jobEvent = JOB_EVENT_KILLER \<and>
             fmlookup (jobExecutingTable w) (Name (ev_Job jobEvent)) = None"
  shows "handleJobEvent parse jobEvent w = w"
  using assms by (auto simp: handleJobEvent_def)

theorem handleJobEvent_unknown_name_is_noop_witness:
  "fmlookup (jobPlanTable exWorld) ''absent'' = None \<and>
   fmlookup (jobExecutingTable exWorld) ''backup'' = None \<and>
   handleJobEvent exParse \<lparr>EventType = JOB_EVENT_DELETE, ev_Job = exJob\<lparr>Name := ''absent''\<rparr>\<rparr>
     exWorld = exWorld \<and>
   handleJobEvent exParse \<lparr>EventType = JOB_EVENT_KILLER, ev_Job = exJob\<rparr> exWorld = exWorld"
proof -
  have h1: "fmlookup (jobPlanTable exWorld) ''absent'' = None"
    by (simp add: exWorld_def)
  have h2: "fmlookup (jobExecutingTable exWorld) ''backup'' = None"
    by (simp add: exWorld_def)
  have "handleJobEvent exParse
          \<lparr>EventType = JOB_EVENT_DELETE, ev_Job = exJob\<lparr>Name := ''absent''\<rparr>\<rparr> exWorld = exWorld"
    using h1 by (intro handleJobEvent_unknown_name_is_noop) simp
  moreover have "handleJobEvent exParse \<lparr>EventType = JOB_EVENT_KILLER, ev_Job = exJob\<rparr> exWorld =
                 exWorld"
    using h2 by (intro handleJobEvent_unknown_name_is_noop) (simp add: exJob_def)
  ultimately show ?thesis using h1 h2 by simp
qed

text \<open>
  C9. A FORCE-KILL event leaves the plan table, the executing table and the calls to
  the Executor as they were; it invokes the cancellation control of the handle the
  tracker holds for the job name, once, and nothing when there is no handle.
\<close>

theorem handleJobEvent_kill_keeps_plan:
  assumes "EventType jobEvent = JOB_EVENT_KILLER"
  shows "jobPlanTable (handleJobEvent parse jobEvent w) = jobPlanTable w \<and>
         jobExecutingTable (handleJobEvent parse jobEvent w) = jobExecutingTable w \<and>
         executorCalls (handleJobEvent parse jobEvent w) = executorCalls w \<and>
         handleJobEvent parse jobEvent w =
           w\<lparr>cancelCalls := cancelCalls w @
               (case fmlookup (jobExecutingTable w) (Name (ev_Job jobEvent)) of
                  None \<Rightarrow> []
                | Some jobExecuteInfo \<Rightarrow> [CancelFunc jobExecuteInfo])\<rparr>"
  using assms by (simp add: handleJobEvent_def split: option.splits)

theorem handleJobEvent_kill_keeps_plan_witness:
  "fmlookup (jobPlanTable (handleJobEvent exParse
      \<lparr>EventType = JOB_EVENT_KILLER, ev_Job = exJob\<rparr> exWorldRunning)) ''backup'' = Some exPlan \<and>
   cancelCalls (handleJobEvent exParse
      \<lparr>EventType = JOB_EVENT_KILLER, ev_Job = exJob\<rparr> exWorldRunning) = [0]"
proof -
  have h: "EventType \<lparr>EventType = JOB_EVENT_KILLER, ev_Job = exJob\<rparr> = JOB_EVENT_KILLER"
    by simp
  have "handleJobEvent exParse \<lparr>EventType = JOB_EVENT_KILLER, ev_Job = exJob\<rparr> exWorldRunning =
        exWorldRunning\<lparr>cancelCalls := cancelCalls exWorldRunning @
               (case fmlookup (jobExecutingTable exWorldRunning)
                       (Name (ev_Job \<lparr>EventType = JOB_EVENT_KILLER, ev_Job = exJob\<rparr>)) of
                  None \<Rightarrow> []
                | Some jobExecuteInfo \<Rightarrow> [CancelFunc jobExecuteInfo])\<rparr>"
    using handleJobEvent_kill_keeps_plan [OF h, of exParse exWorldRunning] by blast
  then show ?thesis
    by (simp add: exWorldRunning_def exWorld_def exJob_def exHandle_def)
qed

text \<open>
  C10. The worker list ListWorkers returns is never nil. When the read of the
  coordination store fails, the result is the error with the empty list; when the
  read succeeds, the result is the address of every key in order, with no error, which
  is the empty list when the prefix has no keys.
\<close>

theorem ListWorkers_list_never_nil:
  "fst (ListWorkers kvGet dir extract) \<noteq> NilSlice \<and>
   (kvGet dir = Inl err \<longrightarrow> ListWorkers kvGet dir extract = (Slice [], Some err)) \<and>
   (kvGet dir = Inr [] \<longrightarrow> ListWorkers kvGet dir extract = (Slice [], None)) \<and>
   (kvGet dir = Inr kvs \<longrightarrow>
      ListWorkers kvGet dir extract = (Slice (map (\<lambda>kv. extract (Key kv)) kvs), None))"
  by (cases "kvGet dir") (auto simp: ListWorkers_def Let_def foldl_append_slice)

theorem ListWorkers_list_never_nil_witness:
  "exKvGet ''/cron/down/'' = Inl (Error ''context deadline exceeded'') \<and>
   ListWorkers exKvGet ''/cron/down/'' (drop 14) =
     (Slice [], Some (Error ''context deadline exceeded'')) \<and>
   exKvGet ''/cron/empty/'' = Inr [] \<and>
   ListWorkers exKvGet ''/cron/empty/'' (drop 14) = (Slice [], None) \<and>
   ListWorkers exKvGet ''/cron/workers/'' (drop 14) = (Slice [''192.168.1.1''], None)"
proof -
  have h1: "exKvGet ''/cron/down/'' = Inl (Error ''context deadline exceeded'')"
    by (simp add: exKvGet_def)
  have h2: "exKvGet ''/cron/empty/'' = Inr []"
    by (simp add: exKvGet_def)
  have h3: "exKvGet ''/cron/workers/'' = Inr [\<lparr>Key = ''/cron/workers/192.168.1.1'', Value = []\<rparr>]"
    by (simp add: exKvGet_def)
  from ListWorkers_list_never_nil
         [of exKvGet "''/cron/down/''" "drop 14" "Error ''context deadline exceeded''" "[]"] h1
  have a: "ListWorkers exKvGet ''/cron/down/'' (drop 14) =
             (Slice [], Some (Error ''context deadline exceeded''))"
    by simp
  from ListWorkers_list_never_nil
         [of exKvGet "''/cron/empty/''" "drop 14" "Error []" "[]"] h2
  have b: "ListWorkers exKvGet ''/cron/empty/'' (drop 14) = (Slice [], None)"
    by simp
  from ListWorkers_list_never_nil
         [of exKvGet "''/cron/workers/''" "drop 14" "Error []"
             "[\<lparr>Key = ''/cron/workers/192.168.1.1'', Value = []\<rparr>]"] h3
  have c: "ListWorkers exKvGet ''/cron/workers/'' (drop 14) = (Slice [''192.168.1.1''], None)"
    by simp
  from h1 h2 a b c show ?thesis by simp
qed

end
